theory Spec2Isabelle
  imports Complex_Main
begin

section \<open>Liquid fill gauge: wave path generation\<close>

text \<open>
  A shallow embedding of \<^verbatim>\<open>src/plots/liquid/shapes/liquid.ts\<close>.
  JavaScript numbers are modelled as mathematical reals: rounding, NaN and the infinities
  of IEEE double arithmetic are outside the model (the one place where the source writes
  \<^verbatim>\<open>Infinity\<close> itself is modelled explicitly further down). \<^verbatim>\<open>Math.PI\<close> is
  the real number \<open>pi\<close>.
\<close>

subsection \<open>lerp\<close>

definition lerp :: "real \<Rightarrow> real \<Rightarrow> real \<Rightarrow> real" where
  "lerp a b factor = (1 - factor) * a + factor * b"

subsection \<open>getWaterWavePositions\<close>

text \<open>
  The source returns an array of three two-element arrays; the model returns a list of
  three pairs. The last branch of the source is taken by every stage other than 0, 1, 2.
\<close>

definition getWaterWavePositions :: "real \<Rightarrow> int \<Rightarrow> real \<Rightarrow> real \<Rightarrow> (real \<times> real) list" where
  "getWaterWavePositions x stage waveLength amplitude =
     (if stage = 0 then
        [(x + ((1 / 2) * waveLength) / pi / 2, amplitude / 2),
         (x + ((1 / 2) * waveLength) / pi, amplitude),
         (x + waveLength / 4, amplitude)]
      else if stage = 1 then
        [(x + (((1 / 2) * waveLength) / pi / 2) * (pi - 2), amplitude),
         (x + (((1 / 2) * waveLength) / pi / 2) * (pi - 1), amplitude / 2),
         (x + waveLength / 4, 0)]
      else if stage = 2 then
        [(x + ((1 / 2) * waveLength) / pi / 2, - amplitude / 2),
         (x + ((1 / 2) * waveLength) / pi, - amplitude),
         (x + waveLength / 4, - amplitude)]
      else
        [(x + (((1 / 2) * waveLength) / pi / 2) * (pi - 2), - amplitude),
         (x + (((1 / 2) * waveLength) / pi / 2) * (pi - 1), - amplitude / 2),
         (x + waveLength / 4, 0)])"

subsection \<open>getWaterWavePath\<close>

datatype path_command =
    M real real
  | C real real real real real real
  | L real real
  | Z

type_synonym path = "path_command list"

text \<open>
  The first normalisation loop: \<^verbatim>\<open>while (_phase < -Math.PI * 2) _phase += Math.PI * 2\<close>.
\<close>

function phase_up :: "real \<Rightarrow> real" where
  "phase_up p = (if p < - pi * 2 then phase_up (p + pi * 2) else p)"
  by pat_completeness auto

text \<open>
  The second normalisation loop: \<^verbatim>\<open>while (_phase > 0) _phase -= Math.PI * 2\<close>.
\<close>

function phase_down :: "real \<Rightarrow> real" where
  "phase_down p = (if p > 0 then phase_down (p - pi * 2) else p)"
  by pat_completeness auto

termination phase_up
proof (relation "measure (\<lambda>p. nat \<lceil>- p / (pi * 2)\<rceil>)")
  show "wf (measure (\<lambda>p. nat \<lceil>- p / (pi * 2)\<rceil>))" by simp
next
  fix p :: real
  assume lt: "p < - pi * 2"
  have pos: "0 < pi * 2" by simp
  have "1 * (pi * 2) < - p" using lt by simp
  then have one: "1 < - p / (pi * 2)" by (simp only: pos_less_divide_eq[OF pos])
  have "\<lceil>- p / (pi * 2) - 1\<rceil> = \<lceil>- p / (pi * 2)\<rceil> - 1" by simp
  moreover have "0 < \<lceil>- p / (pi * 2)\<rceil>" using one by (simp add: less_ceiling_iff)
  ultimately have "nat \<lceil>- p / (pi * 2) - 1\<rceil> < nat \<lceil>- p / (pi * 2)\<rceil>" by simp
  moreover have "- (p + pi * 2) / (pi * 2) = - p / (pi * 2) - 1"
    using pos by (simp add: field_simps)
  ultimately have "nat \<lceil>- (p + pi * 2) / (pi * 2)\<rceil> < nat \<lceil>- p / (pi * 2)\<rceil>"
    by (simp only:)
  then show "(p + pi * 2, p) \<in> measure (\<lambda>p. nat \<lceil>- p / (pi * 2)\<rceil>)"
    by (simp only: in_measure)
qed

termination phase_down
proof (relation "measure (\<lambda>p. nat \<lceil>p / (pi * 2) + 1\<rceil>)")
  show "wf (measure (\<lambda>p. nat \<lceil>p / (pi * 2) + 1\<rceil>))" by simp
next
  fix p :: real
  assume gt: "0 < p"
  have pos: "0 < pi * 2" by simp
  have "0 < p / (pi * 2)" using gt pos by (rule divide_pos_pos)
  then have one: "1 < p / (pi * 2) + 1" by linarith
  have "\<lceil>p / (pi * 2) + 1 - 1\<rceil> = \<lceil>p / (pi * 2) + 1\<rceil> - 1" by simp
  moreover have "0 < \<lceil>p / (pi * 2) + 1\<rceil>" using one by (simp add: less_ceiling_iff)
  ultimately have "nat \<lceil>p / (pi * 2) + 1 - 1\<rceil> < nat \<lceil>p / (pi * 2) + 1\<rceil>" by simp
  moreover have "(p - pi * 2) / (pi * 2) + 1 = p / (pi * 2) + 1 - 1"
    using pos by (simp add: field_simps)
  ultimately have "nat \<lceil>(p - pi * 2) / (pi * 2) + 1\<rceil> < nat \<lceil>p / (pi * 2) + 1\<rceil>"
    by (simp only:)
  then show "(p - pi * 2, p) \<in> measure (\<lambda>p. nat \<lceil>p / (pi * 2) + 1\<rceil>)"
    by (simp only: in_measure)
qed

declare phase_up.simps [simp del] phase_down.simps [simp del]

definition normalize_phase :: "real \<Rightarrow> real" where
  "normalize_phase phase = phase_down (phase_up phase)"

text \<open>
  The \<^verbatim>\<open>for (let c = 0; c < curves; ++c)\<close> loop. Its state is the counter, the path built
  so far and \<^verbatim>\<open>waveRight\<close>.
\<close>

function wave_loop ::
  "int \<Rightarrow> int \<Rightarrow> real \<Rightarrow> real \<Rightarrow> real \<Rightarrow> real \<Rightarrow> path \<Rightarrow> real \<Rightarrow> path \<times> real" where
  "wave_loop c curves waveLength amplitude left waterLevel path waveRight =
     (if c < curves then
        (let stage = c mod 4;
             pos = getWaterWavePositions ((real_of_int c * waveLength) / 4) stage waveLength amplitude;
             path' = path @
               [C (fst (pos ! 0) + left) (- snd (pos ! 0) + waterLevel)
                  (fst (pos ! 1) + left) (- snd (pos ! 1) + waterLevel)
                  (fst (pos ! 2) + left) (- snd (pos ! 2) + waterLevel)];
             waveRight' = (if c = curves - 1 then fst (pos ! 2) else waveRight)
         in wave_loop (c + 1) curves waveLength amplitude left waterLevel path' waveRight')
      else (path, waveRight))"
  by pat_completeness auto
termination
  by (relation "measure (\<lambda>(c, curves, _). nat (curves - c))") auto

declare wave_loop.simps [simp del]

definition curve_count :: "real \<Rightarrow> real \<Rightarrow> int" where
  "curve_count radius waveLength = \<lceil>((2 * radius) / waveLength) * 4\<rceil> * 2"

definition wave_left :: "real \<Rightarrow> real \<Rightarrow> real \<Rightarrow> real \<Rightarrow> real" where
  "wave_left radius waveLength phase cx =
     cx - radius + (normalize_phase phase / pi / 2) * waveLength - radius * 2"

definition getWaterWavePath ::
  "real \<Rightarrow> real \<Rightarrow> real \<Rightarrow> real \<Rightarrow> real \<Rightarrow> real \<Rightarrow> real \<Rightarrow> path" where
  "getWaterWavePath radius waterLevel waveLength phase amplitude cx cy =
     (let curves = curve_count radius waveLength;
          left = wave_left radius waveLength phase cx;
          path = [M left waterLevel];
          (path, waveRight) = wave_loop 0 curves waveLength amplitude left waterLevel path 0
      in path @ [L (waveRight + left) (cy + radius), L left (cy + radius), Z])"

text \<open>Recognises a \<^verbatim>\<open>C\<close> (cubic Bezier) command.\<close>

fun is_curve :: "path_command \<Rightarrow> bool" where
  "is_curve (C a b c d e f) = True"
| "is_curve cmd = False"

section \<open>Liquid fill gauge: style attributes\<close>

text \<open>
  The configuration is untyped in the source (\<^verbatim>\<open>cfg: any\<close>), so its values are modelled
  as JavaScript values with their truthiness. An object is a map from property names to
  values; reading an absent property gives \<^verbatim>\<open>undefined\<close>.
\<close>

datatype jsval = JUndefined | JNull | JBool bool | JNum real | JStr string

fun truthy :: "jsval \<Rightarrow> bool" where
  "truthy JUndefined = False"
| "truthy JNull = False"
| "truthy (JBool b) = b"
| "truthy (JNum r) = (r \<noteq> 0)"
| "truthy (JStr s) = (s \<noteq> [])"

fun isNumber :: "jsval \<Rightarrow> bool" where
  "isNumber (JNum r) = True"
| "isNumber v = False"

type_synonym obj = "string \<rightharpoonup> jsval"

definition get_prop :: "obj \<Rightarrow> string \<Rightarrow> jsval" where
  "get_prop ob k = (case ob k of None \<Rightarrow> JUndefined | Some v \<Rightarrow> v)"

text \<open>
  \<^verbatim>\<open>mix\<close> is imported from the library \<^verbatim>\<open>@antv/util\<close>: it copies into its first
  argument every own property of the following arguments whose value is not
  \<^verbatim>\<open>undefined\<close> and whose name is not \<^verbatim>\<open>constructor\<close>, later arguments winning.
\<close>

definition mix_into :: "obj \<Rightarrow> obj \<Rightarrow> obj" where
  "mix_into dst src =
     (\<lambda>k. case src k of
            None \<Rightarrow> dst k
          | Some v \<Rightarrow> if k \<noteq> ''constructor'' \<and> v \<noteq> JUndefined then Some v else dst k)"

fun mix :: "obj \<Rightarrow> obj list \<Rightarrow> obj" where
  "mix rst [] = rst"
| "mix rst (a # as) = mix (mix_into rst a) as"

record point =
  px :: real
  py :: real

text \<open>
  The fields of \<^verbatim>\<open>cfg\<close> that the shape reads. An absent \<^verbatim>\<open>style\<close> behaves as the
  empty object in both places where it is used (an object spread and \<^verbatim>\<open>mix\<close>);
  an absent \<^verbatim>\<open>customInfo\<close> is \<open>None\<close>.
\<close>

record cfg =
  cfg_style :: obj
  cfg_color :: jsval
  cfg_opacity :: jsval
  cfg_customInfo :: "obj option"
  cfg_points :: "point list"

definition getFillAttrs :: "'a cfg_scheme \<Rightarrow> obj" where
  "getFillAttrs cfg =
     (let attrs = [''opacity'' \<mapsto> JNum 1] ++ cfg_style cfg
      in if truthy (cfg_color cfg) \<and> \<not> truthy (get_prop attrs ''fill'')
         then attrs(''fill'' \<mapsto> cfg_color cfg)
         else attrs)"

definition getLineAttrs :: "'a cfg_scheme \<Rightarrow> obj" where
  "getLineAttrs cfg =
     (let defaultAttrs = [''fill'' \<mapsto> JStr ''#fff'', ''fillOpacity'' \<mapsto> JNum 0,
                          ''lineWidth'' \<mapsto> JNum 2];
          attrs = mix Map.empty [defaultAttrs, cfg_style cfg];
          attrs = (if truthy (cfg_color cfg) \<and> \<not> truthy (get_prop attrs ''stroke'')
                   then attrs(''stroke'' \<mapsto> cfg_color cfg) else attrs);
          attrs = (if isNumber (cfg_opacity cfg)
                   then attrs(''strokeOpacity'' \<mapsto> cfg_opacity cfg, ''opacity'' \<mapsto> cfg_opacity cfg)
                   else attrs)
      in attrs)"

section \<open>Liquid fill gauge: composing the waves\<close>

text \<open>
  The host rendering framework is a collaborator: the shape calls into it and the model
  takes its answers as parameters. \<open>parsePoint\<close> maps a unit-square point to the canvas
  (its x argument may be \<^verbatim>\<open>Infinity\<close>, the initial value of the minimum over no points),
  \<open>getBBox\<close> is the bounding box of the clip circle \<open>(x, y, r)\<close>, \<open>animate\<close> tells whether
  the animation request on a shape goes through (\<open>False\<close>: the call throws), and
  \<open>strToNumber\<close> is the language's conversion of a string operand of a product
  (\<open>None\<close>: not a number).
\<close>

datatype xreal = Fin real | Infinity

fun xmin :: "xreal \<Rightarrow> real \<Rightarrow> xreal" where
  "xmin Infinity v = Fin v"
| "xmin (Fin r) v = Fin (min r v)"

record bbox =
  minX :: real
  maxX :: real
  minY :: real
  maxY :: real

record wave_attrs =
  a_path :: path
  a_fill :: jsval
  a_opacity :: "real option"

datatype shape = PathShape string wave_attrs | CircleShape string obj

type_synonym matrix = "(string \<times> real \<times> real) list"

text \<open>
  Modelled from the spec: \<^verbatim>\<open>transform\<close> of \<^verbatim>\<open>utils/matrix\<close> is not among the sources.
  The spec describes the animation as a horizontal translation by half the bounding
  width; the matrix is kept as the list of actions \<^verbatim>\<open>transform\<close> was called with.
\<close>

definition transform :: "(string \<times> real \<times> real) list \<Rightarrow> matrix" where
  "transform actions = actions"

record animation =
  an_matrix :: matrix
  an_duration :: real
  an_repeat :: bool

record env =
  parsePoint :: "xreal \<times> real \<Rightarrow> point"
  getBBox :: "real \<times> real \<times> real \<Rightarrow> bbox"
  animate :: "shape \<Rightarrow> animation \<Rightarrow> bool"
  strToNumber :: "string \<Rightarrow> real option"

record group =
  g_name :: string
  g_clip :: "(real \<times> real \<times> real) option"
  g_children :: "shape list"
  g_animations :: "(string \<times> animation) list"

datatype element = EGroup group | EShape shape

datatype error = TypeError

fun toNumber :: "'a env_scheme \<Rightarrow> jsval \<Rightarrow> real option" where
  "toNumber e JUndefined = None"
| "toNumber e JNull = Some 0"
| "toNumber e (JBool b) = Some (if b then 1 else 0)"
| "toNumber e (JNum r) = Some r"
| "toNumber e (JStr s) = strToNumber e s"

text \<open>
  The template string \<^verbatim>\<open>wave-path-${i}\<close> prints the loop counter in decimal.
\<close>

definition digit_char :: "nat \<Rightarrow> char" where
  "digit_char n = ''0123456789'' ! n"

fun string_of_nat :: "nat \<Rightarrow> string" where
  "string_of_nat n = (if n < 10 then [digit_char n] else string_of_nat (n div 10) @ [digit_char (n mod 10)])"

declare string_of_nat.simps [simp del]

text \<open>
  The loop of \<^verbatim>\<open>addWaterWave\<close>. Its state is the counter, the group (shapes added and
  animations started) and the console output.
\<close>

function add_waves ::
  "'a env_scheme \<Rightarrow> int \<Rightarrow> int \<Rightarrow> real \<Rightarrow> real \<Rightarrow> real \<Rightarrow> jsval \<Rightarrow> jsval \<Rightarrow> bbox \<Rightarrow> real
     \<Rightarrow> group \<times> string list \<Rightarrow> group \<times> string list" where
  "add_waves e i waveCount x y level fill opacity bb radius (grp, console) =
     (if i < waveCount then
        (let width = maxX bb - minX bb;
             height = maxY bb - minY bb;
             duration = 5000;
             factor = (if waveCount \<le> 1 then 0 else real_of_int i / real_of_int (waveCount - 1));
             wave = PathShape (''wave-path-'' @ string_of_nat (nat i))
                      \<lparr>a_path = getWaterWavePath radius (minY bb + height * level) (width / 4) 0
                                  (width / lerp 56 64 factor) x y,
                       a_fill = fill,
                       a_opacity = map_option (\<lambda>r. lerp 0.6 0.3 factor * r) (toNumber e opacity)\<rparr>;
             grp = grp\<lparr>g_children := g_children grp @ [wave]\<rparr>;
             anim = \<lparr>an_matrix = transform [(''t'', width / 2, 0)],
                     an_duration = lerp duration (0.7 * duration) factor,
                     an_repeat = True\<rparr>;
             st = (if animate e wave anim
                   then (grp\<lparr>g_animations := g_animations grp @ [(''wave-path-'' @ string_of_nat (nat i), anim)]\<rparr>,
                         console)
                   else (grp, console @ [''off-screen group animate error!'']))
         in add_waves e (i + 1) waveCount x y level fill opacity bb radius st)
      else (grp, console))"
  by pat_completeness auto
termination
  by (relation "measure (\<lambda>(e, i, waveCount, _). nat (waveCount - i))") auto

declare add_waves.simps [simp del]

text \<open>
  The shape and the animation request that iteration \<open>i\<close> of the loop builds, named for
  the statements about the loop.
\<close>

definition wave_factor :: "int \<Rightarrow> int \<Rightarrow> real" where
  "wave_factor waveCount i =
     (if waveCount \<le> 1 then 0 else real_of_int i / real_of_int (waveCount - 1))"

definition wave_name :: "int \<Rightarrow> string" where
  "wave_name i = ''wave-path-'' @ string_of_nat (nat i)"

definition wave_at ::
  "'a env_scheme \<Rightarrow> int \<Rightarrow> real \<Rightarrow> real \<Rightarrow> real \<Rightarrow> jsval \<Rightarrow> jsval \<Rightarrow> bbox \<Rightarrow> real \<Rightarrow> int \<Rightarrow> shape" where
  "wave_at e waveCount x y level fill opacity bb radius i =
     PathShape (wave_name i)
       \<lparr>a_path = getWaterWavePath radius (minY bb + (maxY bb - minY bb) * level)
                   ((maxX bb - minX bb) / 4) 0
                   ((maxX bb - minX bb) / lerp 56 64 (wave_factor waveCount i)) x y,
        a_fill = fill,
        a_opacity = map_option (\<lambda>r. lerp 0.6 0.3 (wave_factor waveCount i) * r) (toNumber e opacity)\<rparr>"

definition anim_at :: "int \<Rightarrow> bbox \<Rightarrow> int \<Rightarrow> animation" where
  "anim_at waveCount bb i =
     \<lparr>an_matrix = transform [(''t'', (maxX bb - minX bb) / 2, 0)],
      an_duration = lerp 5000 (0.7 * 5000) (wave_factor waveCount i),
      an_repeat = True\<rparr>"

definition addWaterWave ::
  "'a env_scheme \<Rightarrow> real \<Rightarrow> real \<Rightarrow> real \<Rightarrow> int \<Rightarrow> obj \<Rightarrow> group \<Rightarrow> real \<times> real \<times> real \<Rightarrow> real
     \<Rightarrow> string list \<Rightarrow> group \<times> string list" where
  "addWaterWave e x y level waveCount waveAttrs grp clip radius console =
     (let fill = get_prop waveAttrs ''fill'';
          opacity = get_prop waveAttrs ''opacity'';
          bb = getBBox e clip
      in add_waves e 0 waveCount x y level fill opacity bb radius (grp, console))"

text \<open>
  The \<^verbatim>\<open>draw\<close> method of the registered shape. Reading a property of an absent
  \<^verbatim>\<open>customInfo\<close> or of an absent second point throws a \<^verbatim>\<open>TypeError\<close>. The result is the
  container with the group of waves and the ring appended, and the console output.
\<close>

definition draw :: "'a env_scheme \<Rightarrow> 'b cfg_scheme \<Rightarrow> element list \<Rightarrow> error + (element list \<times> string list)" where
  "draw e cfg container =
     (let cx = 0.5; cy = 0.5 in
      case cfg_customInfo cfg of
        None \<Rightarrow> Inl TypeError
      | Some customInfo \<Rightarrow>
         (let radio = (case get_prop customInfo ''radius'' of JNum r \<Rightarrow> r | _ \<Rightarrow> 0.9);
              minX = foldl (\<lambda>r p. xmin r (px p)) Infinity (cfg_points cfg);
              center = parsePoint e (Fin cx, cy);
              minXPoint = parsePoint e (minX, cy);
              halfWidth = px center - px minXPoint;
              radius = min halfWidth (py minXPoint * radio);
              waveAttrs = getFillAttrs cfg;
              waves = \<lparr>g_name = ''waves'', g_clip = None, g_children = [], g_animations = []\<rparr>;
              waves = waves\<lparr>g_clip := Some (px center, py center, radius)\<rparr>;
              clipCircle = (px center, py center, radius)
          in case cfg_points cfg of
               p0 # p1 # rest \<Rightarrow>
                 (let (waves, console) =
                        addWaterWave e (px center) (py center) (1 - py p1) 3 waveAttrs waves
                          clipCircle (radius * 4) [];
                      ring = CircleShape ''wrap''
                               (mix (getLineAttrs cfg)
                                  [[''x'' \<mapsto> JNum (px center), ''y'' \<mapsto> JNum (py center),
                                    ''r'' \<mapsto> JNum radius, ''fill'' \<mapsto> JStr ''transparent'']])
                  in Inr (container @ [EGroup waves, EShape ring], console))
             | _ \<Rightarrow> Inl TypeError))"

text \<open>The shapes of a container element, in drawing order.\<close>

fun element_shapes :: "element \<Rightarrow> shape list" where
  "element_shapes (EGroup g) = g_children g"
| "element_shapes (EShape s) = [s]"

section \<open>Properties of the wave segments\<close>

lemma getWaterWavePositions_length:
  "length (getWaterWavePositions x stage waveLength amplitude) = 3"
  by (simp add: getWaterWavePositions_def)


section \<open>Phase normalisation\<close>











section \<open>The loop over the quarter-segments\<close>

lemma wave_loop_exit:
  "\<not> c < curves \<Longrightarrow> wave_loop c curves wl a left lvl path wr = (path, wr)"
  by (subst wave_loop.simps) simp

lemma wave_loop_step:
  "c < curves \<Longrightarrow>
   wave_loop c curves wl a left lvl path wr =
   wave_loop (c + 1) curves wl a left lvl
     (path @ [C (fst (getWaterWavePositions ((real_of_int c * wl) / 4) (c mod 4) wl a ! 0) + left)
                (- snd (getWaterWavePositions ((real_of_int c * wl) / 4) (c mod 4) wl a ! 0) + lvl)
                (fst (getWaterWavePositions ((real_of_int c * wl) / 4) (c mod 4) wl a ! 1) + left)
                (- snd (getWaterWavePositions ((real_of_int c * wl) / 4) (c mod 4) wl a ! 1) + lvl)
                (fst (getWaterWavePositions ((real_of_int c * wl) / 4) (c mod 4) wl a ! 2) + left)
                (- snd (getWaterWavePositions ((real_of_int c * wl) / 4) (c mod 4) wl a ! 2) + lvl)])
     (if c = curves - 1 then fst (getWaterWavePositions ((real_of_int c * wl) / 4) (c mod 4) wl a ! 2) else wr)"
  by (subst wave_loop.simps) (simp add: Let_def)

lemma wave_loop_path:
  "\<exists>cs. fst (wave_loop c curves wl a left lvl path wr) = path @ cs
        \<and> length cs = nat (curves - c) \<and> list_all is_curve cs"
proof (induction c curves wl a left lvl path wr rule: wave_loop.induct)
  case (1 c curves wl a left lvl path wr)
  show ?case
  proof (cases "c < curves")
    case False
    then show ?thesis by (simp add: wave_loop_exit)
  next
    case True
    let ?pos = "getWaterWavePositions ((real_of_int c * wl) / 4) (c mod 4) wl a"
    let ?cmd = "C (fst (?pos ! 0) + left) (- snd (?pos ! 0) + lvl)
                  (fst (?pos ! 1) + left) (- snd (?pos ! 1) + lvl)
                  (fst (?pos ! 2) + left) (- snd (?pos ! 2) + lvl)"
    let ?wr = "if c = curves - 1 then fst (?pos ! 2) else wr"
    from "1.IH"[OF True refl refl refl refl]
    obtain cs where cs: "fst (wave_loop (c + 1) curves wl a left lvl (path @ [?cmd]) ?wr) = (path @ [?cmd]) @ cs"
      "length cs = nat (curves - (c + 1))" "list_all is_curve cs" by blast
    have "fst (wave_loop c curves wl a left lvl path wr) = path @ (?cmd # cs)"
      using cs(1) by (simp add: wave_loop_step[OF True])
    moreover have "length (?cmd # cs) = nat (curves - c)" using cs(2) True by simp
    moreover have "list_all is_curve (?cmd # cs)" using cs(3) by simp
    ultimately show ?thesis by blast
  qed
qed


lemma curve_count_pos:
  assumes "0 < radius" "0 < waveLength"
  shows "0 < curve_count radius waveLength"
proof -
  have "0 < ((2 * radius) / waveLength) * 4" using assms by simp
  then have "0 < \<lceil>((2 * radius) / waveLength) * 4\<rceil>" by (simp add: less_ceiling_iff)
  then show ?thesis by (simp add: curve_count_def)
qed

lemma getWaterWavePath_unfold:
  "getWaterWavePath radius lvl wl ph a cx cy =
     fst (wave_loop 0 (curve_count radius wl) wl a (wave_left radius wl ph cx) lvl
            [M (wave_left radius wl ph cx) lvl] 0)
     @ [L (snd (wave_loop 0 (curve_count radius wl) wl a (wave_left radius wl ph cx) lvl
                 [M (wave_left radius wl ph cx) lvl] 0) + wave_left radius wl ph cx) (cy + radius),
        L (wave_left radius wl ph cx) (cy + radius), Z]"
  by (simp add: getWaterWavePath_def Let_def split_beta)

lemma getWaterWavePath_shape:
  "\<exists>cs. getWaterWavePath radius lvl wl ph a cx cy =
          M (wave_left radius wl ph cx) lvl # cs @
          [L (snd (wave_loop 0 (curve_count radius wl) wl a (wave_left radius wl ph cx) lvl
                 [M (wave_left radius wl ph cx) lvl] 0) + wave_left radius wl ph cx) (cy + radius),
           L (wave_left radius wl ph cx) (cy + radius), Z]
        \<and> length cs = nat (curve_count radius wl) \<and> list_all is_curve cs"
proof -
  obtain cs where cs: "fst (wave_loop 0 (curve_count radius wl) wl a (wave_left radius wl ph cx) lvl
            [M (wave_left radius wl ph cx) lvl] 0) = [M (wave_left radius wl ph cx) lvl] @ cs"
     "length cs = nat (curve_count radius wl - 0)" "list_all is_curve cs"
    using wave_loop_path by blast
  then show ?thesis by (simp add: getWaterWavePath_unfold)
qed

section \<open>Verified properties of the wave path\<close>

text \<open>
  Claim C3. For a positive wave length and a non-negative amplitude,
  \<^verbatim>\<open>getWaterWavePositions\<close> returns three points, the last one at horizontal offset
  \<open>x + waveLength / 4\<close>; the y-coordinates are \<open>a/2, a, a\<close> at stage 0 (ascending),
  \<open>a, a/2, 0\<close> at stage 1 (descending), \<open>-a/2, -a, -a\<close> at stage 2 (descending) and
  \<open>-a, -a/2, 0\<close> at stage 3 (ascending); with amplitude 0 every y-coordinate is 0.
\<close>

theorem getWaterWavePositions_stages:
  assumes "0 < waveLength" and "0 \<le> amplitude"
  shows "length (getWaterWavePositions x stage waveLength amplitude) = 3
       \<and> fst (getWaterWavePositions x stage waveLength amplitude ! 2) = x + waveLength / 4
       \<and> map snd (getWaterWavePositions x 0 waveLength amplitude) = [amplitude / 2, amplitude, amplitude]
       \<and> map snd (getWaterWavePositions x 1 waveLength amplitude) = [amplitude, amplitude / 2, 0]
       \<and> map snd (getWaterWavePositions x 2 waveLength amplitude) = [- amplitude / 2, - amplitude, - amplitude]
       \<and> map snd (getWaterWavePositions x 3 waveLength amplitude) = [- amplitude, - amplitude / 2, 0]
       \<and> sorted (map snd (getWaterWavePositions x 0 waveLength amplitude))
       \<and> sorted (rev (map snd (getWaterWavePositions x 1 waveLength amplitude)))
       \<and> sorted (rev (map snd (getWaterWavePositions x 2 waveLength amplitude)))
       \<and> sorted (map snd (getWaterWavePositions x 3 waveLength amplitude))
       \<and> map snd (getWaterWavePositions x stage waveLength 0) = [0, 0, 0]"
  using assms by (simp add: getWaterWavePositions_def)

theorem getWaterWavePositions_stages_witness:
  "(0::real) < 4 \<and> (0::real) \<le> 2
   \<and> length (getWaterWavePositions 1 3 4 2) = 3
   \<and> fst (getWaterWavePositions 1 3 4 2 ! 2) = 2
   \<and> map snd (getWaterWavePositions 1 0 4 2) = [1, 2, 2]
   \<and> map snd (getWaterWavePositions 1 1 4 2) = [2, 1, 0]
   \<and> map snd (getWaterWavePositions 1 2 4 2) = [- 1, - 2, - 2]
   \<and> map snd (getWaterWavePositions 1 3 4 2) = [- 2, - 1, 0]
   \<and> map snd (getWaterWavePositions 1 3 4 0) = [0, 0, 0]"
  using getWaterWavePositions_stages[of 4 2 1 3] by simp

text \<open>
  Claim C1. For a positive radius and wave length and a non-negative amplitude, the path
  starts with a MoveTo, ends with two LineTo commands and a ClosePath, and has exactly
  \<open>\<lceil>(2 * radius / waveLength) * 4\<rceil> * 2\<close> commands in between, all of them cubic Bezier
  commands.
\<close>

theorem getWaterWavePath_commands:
  assumes "0 < radius" and "0 < waveLength" and "0 \<le> amplitude"
  shows "\<exists>right cs.
           getWaterWavePath radius waterLevel waveLength phase amplitude cx cy =
             M (wave_left radius waveLength phase cx) waterLevel # cs @
             [L right (cy + radius), L (wave_left radius waveLength phase cx) (cy + radius), Z]
         \<and> int (length cs) = \<lceil>((2 * radius) / waveLength) * 4\<rceil> * 2
         \<and> list_all is_curve cs"
proof -
  have "0 < curve_count radius waveLength" using assms(1,2) by (rule curve_count_pos)
  then have "int (nat (curve_count radius waveLength)) = \<lceil>((2 * radius) / waveLength) * 4\<rceil> * 2"
    by (simp add: curve_count_def)
  then show ?thesis
    using getWaterWavePath_shape[of radius waterLevel waveLength phase amplitude cx cy]
    by metis
qed

theorem getWaterWavePath_commands_witness:
  "(0::real) < 1 \<and> (0::real) < 1 \<and> (0::real) \<le> 0
   \<and> (\<exists>right cs.
           getWaterWavePath 1 0 1 0 0 0 0 =
             M (wave_left 1 1 0 0) 0 # cs @ [L right (0 + 1), L (wave_left 1 1 0 0) (0 + 1), Z]
         \<and> int (length cs) = 16
         \<and> list_all is_curve cs)"
  using getWaterWavePath_commands[of 1 1 0 0 0 0 0] by simp







section \<open>The loop over the waves\<close>

lemma add_waves_exit:
  "\<not> i < n \<Longrightarrow> add_waves e i n x y level fill opacity bb radius (grp, con) = (grp, con)"
  by (subst add_waves.simps) simp

lemma add_waves_step:
  "i < n \<Longrightarrow>
   add_waves e i n x y level fill opacity bb radius (grp, con) =
   add_waves e (i + 1) n x y level fill opacity bb radius
     (if animate e (wave_at e n x y level fill opacity bb radius i) (anim_at n bb i)
      then (grp\<lparr>g_children := g_children grp @ [wave_at e n x y level fill opacity bb radius i],
                g_animations := g_animations grp @ [(wave_name i, anim_at n bb i)]\<rparr>, con)
      else (grp\<lparr>g_children := g_children grp @ [wave_at e n x y level fill opacity bb radius i]\<rparr>,
            con @ [''off-screen group animate error!'']))"
  by (subst add_waves.simps)
     (simp add: Let_def wave_at_def anim_at_def wave_factor_def wave_name_def)

lemma add_waves_result:
  "add_waves e i n x y level fill opacity bb radius (grp, con) =
     (grp\<lparr>g_children := g_children grp @ map (wave_at e n x y level fill opacity bb radius) [i..n - 1],
          g_animations := g_animations grp @
            map (\<lambda>k. (wave_name k, anim_at n bb k))
              (filter (\<lambda>k. animate e (wave_at e n x y level fill opacity bb radius k) (anim_at n bb k))
                 [i..n - 1])\<rparr>,
      con @ map (\<lambda>k. ''off-screen group animate error!'')
              (filter (\<lambda>k. \<not> animate e (wave_at e n x y level fill opacity bb radius k) (anim_at n bb k))
                 [i..n - 1]))"
proof (induction "nat (n - i)" arbitrary: i grp con)
  case 0
  then have ni: "\<not> i < n" by simp
  then have "[i..n - 1] = []" by simp
  with ni show ?case by (simp add: add_waves_exit)
next
  case (Suc k)
  then have lt: "i < n" by simp
  then have up: "[i..n - 1] = i # [i + 1..n - 1]" by (simp add: upto_rec1)
  have k: "k = nat (n - (i + 1))" using Suc(2) by simp
  note ih = Suc(1)[OF k]
  show ?case
  proof (cases "animate e (wave_at e n x y level fill opacity bb radius i) (anim_at n bb i)")
    case True
    show ?thesis
      unfolding add_waves_step[OF lt] up using True by (simp add: ih)
  next
    case False
    show ?thesis
      unfolding add_waves_step[OF lt] up using False by (simp add: ih)
  qed
qed

lemma addWaterWave_result:
  "addWaterWave e x y level n waveAttrs grp clip radius con =
     (grp\<lparr>g_children := g_children grp @
            map (wave_at e n x y level (get_prop waveAttrs ''fill'') (get_prop waveAttrs ''opacity'')
                   (getBBox e clip) radius) [0..n - 1],
          g_animations := g_animations grp @
            map (\<lambda>k. (wave_name k, anim_at n (getBBox e clip) k))
              (filter (\<lambda>k. animate e
                         (wave_at e n x y level (get_prop waveAttrs ''fill'')
                            (get_prop waveAttrs ''opacity'') (getBBox e clip) radius k)
                         (anim_at n (getBBox e clip) k))
                 [0..n - 1])\<rparr>,
      con @ map (\<lambda>k. ''off-screen group animate error!'')
              (filter (\<lambda>k. \<not> animate e
                         (wave_at e n x y level (get_prop waveAttrs ''fill'')
                            (get_prop waveAttrs ''opacity'') (getBBox e clip) radius k)
                         (anim_at n (getBBox e clip) k))
                 [0..n - 1]))"
  by (simp add: addWaterWave_def Let_def add_waves_result)

lemma upto_from_zero_nth: "0 \<le> i \<Longrightarrow> i < n \<Longrightarrow> [0..n - 1] ! nat i = i"
  by simp


lemma toNumber_animate_update [simp]: "toNumber (e\<lparr>animate := f\<rparr>) v = toNumber e v"
  by (cases v) simp_all

lemma wave_at_animate_update [simp]:
  "wave_at (e\<lparr>animate := f\<rparr>) n x y level fill opacity bb radius = wave_at e n x y level fill opacity bb radius"
  by (rule ext) (simp add: wave_at_def)

lemma draw_result:
  assumes ci: "cfg_customInfo cfg = Some ci" and pts: "cfg_points cfg = p0 # p1 # rest"
  shows "draw e cfg container =
     (let radio = (case get_prop ci ''radius'' of JNum r \<Rightarrow> r | _ \<Rightarrow> 0.9);
          minX = foldl (\<lambda>r p. xmin r (px p)) Infinity (cfg_points cfg);
          center = parsePoint e (Fin 0.5, 0.5);
          minXPoint = parsePoint e (minX, 0.5);
          radius = min (px center - px minXPoint) (py minXPoint * radio);
          clip = (px center, py center, radius);
          result = addWaterWave e (px center) (py center) (1 - py p1) 3 (getFillAttrs cfg)
                     \<lparr>g_name = ''waves'', g_clip = Some clip, g_children = [], g_animations = []\<rparr>
                     clip (radius * 4) []
      in Inr (container @
                [EGroup (fst result),
                 EShape (CircleShape ''wrap''
                   (mix (getLineAttrs cfg)
                      [[''x'' \<mapsto> JNum (px center), ''y'' \<mapsto> JNum (py center),
                        ''r'' \<mapsto> JNum radius, ''fill'' \<mapsto> JStr ''transparent'']]))],
              snd result))"
  by (simp add: draw_def ci pts Let_def split_beta)

lemma draw_error:
  "cfg_customInfo cfg = None \<or> length (cfg_points cfg) < 2 \<Longrightarrow> draw e cfg container = Inl TypeError"
  by (cases "cfg_points cfg"; cases "tl (cfg_points cfg)")
     (auto simp add: draw_def Let_def split: option.splits list.splits)

lemma lerp_amplitude_mono:
  fixes i j :: int and width :: real
  assumes "0 \<le> i" "i < j" "0 < width"
  shows "width / lerp 56 64 (real_of_int j / 2) < width / lerp 56 64 (real_of_int i / 2)"
proof -
  have i: "lerp 56 64 (real_of_int i / 2) = 56 + 4 * real_of_int i" by (simp add: lerp_def algebra_simps)
  have j: "lerp 56 64 (real_of_int j / 2) = 56 + 4 * real_of_int j" by (simp add: lerp_def algebra_simps)
  have "0 < 56 + 4 * real_of_int i" using assms(1) by simp
  moreover have "56 + 4 * real_of_int i < 56 + 4 * real_of_int j" using assms(2) by simp
  ultimately show ?thesis unfolding i j using assms(3) by (simp add: frac_less2)
qed

lemma lerp_opacity_mono:
  fixes i j :: int and b :: real
  assumes "i < j" "0 < b"
  shows "lerp 0.6 0.3 (real_of_int j / 2) * b < lerp 0.6 0.3 (real_of_int i / 2) * b"
proof -
  have "real_of_int i < real_of_int j" using assms(1) by simp
  then have "lerp 0.6 0.3 (real_of_int j / 2) < lerp 0.6 0.3 (real_of_int i / 2)"
    unfolding lerp_def by argo
  then show ?thesis using assms(2) by simp
qed

lemma wave_names: "wave_name 0 = ''wave-path-0''" "wave_name 1 = ''wave-path-1''" "wave_name 2 = ''wave-path-2''"
  by (simp_all add: wave_name_def string_of_nat.simps digit_char_def)

lemma upto_three: "[0..3 - 1] = [0, 1, (2::int)]"
  by (simp add: upto_rec1)


section \<open>Verified properties of the style attributes\<close>

text \<open>
  Claim C6, as amended. The result is the style's properties over \<open>{opacity: 1}\<close>, with
  the colour assigned to \<open>fill\<close> exactly when the colour is truthy and the style's fill is
  falsy (absent, undefined, null, false, 0 or the empty string); a truthy fill of the style
  is preserved, and so is every other property of the style.
\<close>

theorem getFillAttrs_fill:
  "(truthy (get_prop (cfg_style cfg) ''fill'') \<longrightarrow> getFillAttrs cfg ''fill'' = cfg_style cfg ''fill'')
   \<and> (truthy (cfg_color cfg) \<and> \<not> truthy (get_prop (cfg_style cfg) ''fill'')
        \<longrightarrow> getFillAttrs cfg ''fill'' = Some (cfg_color cfg))
   \<and> (\<not> truthy (cfg_color cfg) \<longrightarrow> getFillAttrs cfg ''fill'' = cfg_style cfg ''fill'')
   \<and> getFillAttrs cfg ''opacity''
        = (case cfg_style cfg ''opacity'' of None \<Rightarrow> Some (JNum 1) | Some v \<Rightarrow> Some v)
   \<and> (k \<noteq> ''fill'' \<and> k \<noteq> ''opacity'' \<longrightarrow> getFillAttrs cfg k = cfg_style cfg k)"
  by (auto simp add: getFillAttrs_def get_prop_def map_add_def Let_def split: option.splits)

theorem getFillAttrs_fill_witness:
  "truthy (get_prop [''fill'' \<mapsto> JStr ''#00f''] ''fill'')
   \<and> getFillAttrs \<lparr>cfg_style = [''fill'' \<mapsto> JStr ''#00f''], cfg_color = JStr ''#f00'',
        cfg_opacity = JUndefined, cfg_customInfo = None, cfg_points = []\<rparr> ''fill''
       = Some (JStr ''#00f'')
   \<and> truthy (JStr ''#ff0000'') \<and> \<not> truthy (get_prop Map.empty ''fill'')
   \<and> getFillAttrs \<lparr>cfg_style = Map.empty, cfg_color = JStr ''#ff0000'',
        cfg_opacity = JUndefined, cfg_customInfo = None, cfg_points = []\<rparr> ''fill''
       = Some (JStr ''#ff0000'')
   \<and> getFillAttrs \<lparr>cfg_style = Map.empty, cfg_color = JStr ''#ff0000'',
        cfg_opacity = JUndefined, cfg_customInfo = None, cfg_points = []\<rparr> ''opacity''
       = Some (JNum 1)"
  using getFillAttrs_fill[of "\<lparr>cfg_style = [''fill'' \<mapsto> JStr ''#00f''], cfg_color = JStr ''#f00'',
        cfg_opacity = JUndefined, cfg_customInfo = None, cfg_points = []\<rparr>" "''x''"]
    getFillAttrs_fill[of "\<lparr>cfg_style = Map.empty, cfg_color = JStr ''#ff0000'',
        cfg_opacity = JUndefined, cfg_customInfo = None, cfg_points = []\<rparr>" "''x''"]
  by (simp add: get_prop_def)

text \<open>
  A style that sets \<open>fill\<close> explicitly to the empty string (or to null) does not keep it:
  the test in the source is on truthiness, so the colour replaces it.
\<close>

theorem getFillAttrs_fill_counterexample:
  "cfg_style \<lparr>cfg_style = [''fill'' \<mapsto> JStr ''''], cfg_color = JStr ''#f00'',
        cfg_opacity = JUndefined, cfg_customInfo = None, cfg_points = []\<rparr> ''fill'' = Some (JStr '''')
   \<and> getFillAttrs \<lparr>cfg_style = [''fill'' \<mapsto> JStr ''''], cfg_color = JStr ''#f00'',
        cfg_opacity = JUndefined, cfg_customInfo = None, cfg_points = []\<rparr> ''fill''
       = Some (JStr ''#f00'')
   \<and> getFillAttrs \<lparr>cfg_style = [''fill'' \<mapsto> JNull], cfg_color = JStr ''#f00'',
        cfg_opacity = JUndefined, cfg_customInfo = None, cfg_points = []\<rparr> ''fill''
       = Some (JStr ''#f00'')"
  by (simp add: getFillAttrs_def get_prop_def)

text \<open>
  Claim C7. With an empty style, colour \<open>#ff0000\<close> and opacity 0.5 the ring attributes are
  exactly fill \<open>#fff\<close>, fillOpacity 0, lineWidth 2, stroke \<open>#ff0000\<close>, opacity 0.5 and
  strokeOpacity 0.5; in general a numeric opacity is assigned to both \<open>opacity\<close> and
  \<open>strokeOpacity\<close>.
\<close>

theorem getLineAttrs_opacity:
  "getLineAttrs \<lparr>cfg_style = Map.empty, cfg_color = JStr ''#ff0000'', cfg_opacity = JNum 0.5,
                  cfg_customInfo = ci, cfg_points = pts\<rparr>
     = [''fill'' \<mapsto> JStr ''#fff'', ''fillOpacity'' \<mapsto> JNum 0, ''lineWidth'' \<mapsto> JNum 2,
        ''stroke'' \<mapsto> JStr ''#ff0000'', ''opacity'' \<mapsto> JNum 0.5, ''strokeOpacity'' \<mapsto> JNum 0.5]
   \<and> (isNumber (cfg_opacity cfg) \<longrightarrow>
          getLineAttrs cfg ''opacity'' = Some (cfg_opacity cfg)
        \<and> getLineAttrs cfg ''strokeOpacity'' = Some (cfg_opacity cfg))"
proof -
  have a: "getLineAttrs \<lparr>cfg_style = Map.empty, cfg_color = JStr ''#ff0000'', cfg_opacity = JNum 0.5,
                  cfg_customInfo = ci, cfg_points = pts\<rparr>
     = [''fill'' \<mapsto> JStr ''#fff'', ''fillOpacity'' \<mapsto> JNum 0, ''lineWidth'' \<mapsto> JNum 2,
        ''stroke'' \<mapsto> JStr ''#ff0000'', ''opacity'' \<mapsto> JNum 0.5, ''strokeOpacity'' \<mapsto> JNum 0.5]"
    by (rule ext) (simp add: getLineAttrs_def mix_into_def get_prop_def)
  have b: "isNumber (cfg_opacity cfg) \<longrightarrow>
          getLineAttrs cfg ''opacity'' = Some (cfg_opacity cfg)
        \<and> getLineAttrs cfg ''strokeOpacity'' = Some (cfg_opacity cfg)"
    by (simp add: getLineAttrs_def Let_def)
  from a b show ?thesis by (rule conjI)
qed

theorem getLineAttrs_opacity_witness:
  "isNumber (JNum 0.25)
   \<and> getLineAttrs \<lparr>cfg_style = [''opacity'' \<mapsto> JNum 1, ''strokeOpacity'' \<mapsto> JStr ''x''],
         cfg_color = JNull, cfg_opacity = JNum 0.25, cfg_customInfo = None, cfg_points = []\<rparr> ''opacity''
       = Some (JNum 0.25)
   \<and> getLineAttrs \<lparr>cfg_style = [''opacity'' \<mapsto> JNum 1, ''strokeOpacity'' \<mapsto> JStr ''x''],
         cfg_color = JNull, cfg_opacity = JNum 0.25, cfg_customInfo = None, cfg_points = []\<rparr> ''strokeOpacity''
       = Some (JNum 0.25)"
  using getLineAttrs_opacity[of None "[]"
     "\<lparr>cfg_style = [''opacity'' \<mapsto> JNum 1, ''strokeOpacity'' \<mapsto> JStr ''x''],
         cfg_color = JNull, cfg_opacity = JNum 0.25, cfg_customInfo = None, cfg_points = []\<rparr>"]
  by simp

section \<open>Verified properties of the composer\<close>

text \<open>
  Claim C8. For every index \<open>i\<close> with \<open>0 \<le> i < waveCount\<close>, the \<open>i\<close>-th shape that
  \<^verbatim>\<open>addWaterWave\<close> adds to the group is built with \<open>factor = i / (waveCount - 1)\<close>
  (0 when \<open>waveCount \<le> 1\<close>), amplitude \<open>width / lerp 56 64 factor\<close> and opacity
  \<open>lerp 0.6 0.3 factor\<close> times the base opacity, and its animation request has duration
  \<open>lerp 5000 3500 factor\<close>; with a single wave these are 56, 0.6 and 5000.
\<close>

theorem addWaterWave_parameters:
  assumes "0 \<le> i" and "i < waveCount"
  shows "let bb = getBBox e clip;
             width = maxX bb - minX bb;
             height = maxY bb - minY bb;
             factor = (if waveCount \<le> 1 then 0 else real_of_int i / real_of_int (waveCount - 1));
             wave = PathShape (''wave-path-'' @ string_of_nat (nat i))
                      \<lparr>a_path = getWaterWavePath radius (minY bb + height * level) (width / 4) 0
                                  (width / lerp 56 64 factor) x y,
                       a_fill = get_prop waveAttrs ''fill'',
                       a_opacity = map_option (\<lambda>b. lerp 0.6 0.3 factor * b)
                                     (toNumber e (get_prop waveAttrs ''opacity''))\<rparr>;
             anim = \<lparr>an_matrix = transform [(''t'', width / 2, 0)],
                     an_duration = lerp 5000 3500 factor, an_repeat = True\<rparr>;
             result = addWaterWave e x y level waveCount waveAttrs grp clip radius con
         in length (g_children (fst result)) = length (g_children grp) + nat waveCount
          \<and> g_children (fst result) ! (length (g_children grp) + nat i) = wave
          \<and> (animate e wave anim \<longrightarrow>
                (''wave-path-'' @ string_of_nat (nat i), anim) \<in> set (g_animations (fst result)))
          \<and> (waveCount = 1 \<longrightarrow>
                factor = 0 \<and> lerp 56 64 factor = 56 \<and> lerp 0.6 0.3 factor = 0.6
                \<and> lerp 5000 3500 factor = 5000)"
proof -
  define bb where "bb = getBBox e clip"
  define W where "W = wave_at e waveCount x y level (get_prop waveAttrs ''fill'')
                        (get_prop waveAttrs ''opacity'') bb radius"
  define A where "A = anim_at waveCount bb"
  define result where "result = addWaterWave e x y level waveCount waveAttrs grp clip radius con"
  have ch: "g_children (fst result) = g_children grp @ map W [0..waveCount - 1]"
    unfolding result_def W_def bb_def by (simp add: addWaterWave_result)
  have an: "g_animations (fst result) = g_animations grp @
              map (\<lambda>k. (wave_name k, A k)) (filter (\<lambda>k. animate e (W k) (A k)) [0..waveCount - 1])"
    unfolding result_def W_def A_def bb_def by (simp add: addWaterWave_result)
  have len: "length (g_children (fst result)) = length (g_children grp) + nat waveCount"
    by (simp add: ch)
  have "nat i < length (map W [0..waveCount - 1])" using assms by simp
  then have "g_children (fst result) ! (length (g_children grp) + nat i)
               = map W [0..waveCount - 1] ! nat i"
    by (simp add: ch)
  also have "\<dots> = W ([0..waveCount - 1] ! nat i)" using assms by simp
  also have "\<dots> = W i" using assms by (simp add: upto_from_zero_nth)
  finally have nth: "g_children (fst result) ! (length (g_children grp) + nat i) = W i" .
  have mem: "i \<in> set [0..waveCount - 1]" using assms by simp
  have anim: "animate e (W i) (A i) \<longrightarrow> (wave_name i, A i) \<in> set (g_animations (fst result))"
    using mem by (auto simp add: an)
  have one: "waveCount = 1 \<longrightarrow> wave_factor waveCount i = 0 \<and> lerp 56 64 0 = 56
               \<and> lerp 0.6 0.3 0 = 0.6 \<and> lerp 5000 3500 0 = 5000"
    by (simp add: wave_factor_def lerp_def)
  from len nth anim one show ?thesis
    unfolding W_def A_def result_def bb_def
    by (simp add: Let_def wave_at_def anim_at_def wave_name_def wave_factor_def)
qed

theorem addWaterWave_parameters_witness:
  "(0::int) \<le> 0 \<and> (0::int) < 1
   \<and> g_children (fst (addWaterWave
        \<lparr>parsePoint = (\<lambda>p. \<lparr>px = 0, py = 0\<rparr>),
         getBBox = (\<lambda>c. \<lparr>minX = 0, maxX = 112, minY = 0, maxY = 112\<rparr>),
         animate = (\<lambda>s a. True), strToNumber = (\<lambda>s. None)\<rparr>
        56 56 (1 / 2) 1 [''fill'' \<mapsto> JStr ''#f00'', ''opacity'' \<mapsto> JNum 1]
        \<lparr>g_name = ''waves'', g_clip = None, g_children = [], g_animations = []\<rparr>
        (56, 56, 56) 224 [])) ! 0
     = PathShape ''wave-path-0''
         \<lparr>a_path = getWaterWavePath 224 56 28 0 2 56 56, a_fill = JStr ''#f00'',
          a_opacity = Some (3 / 5)\<rparr>
   \<and> (''wave-path-0'', \<lparr>an_matrix = [(''t'', 56, 0)], an_duration = 5000, an_repeat = True\<rparr>)
       \<in> set (g_animations (fst (addWaterWave
        \<lparr>parsePoint = (\<lambda>p. \<lparr>px = 0, py = 0\<rparr>),
         getBBox = (\<lambda>c. \<lparr>minX = 0, maxX = 112, minY = 0, maxY = 112\<rparr>),
         animate = (\<lambda>s a. True), strToNumber = (\<lambda>s. None)\<rparr>
        56 56 (1 / 2) 1 [''fill'' \<mapsto> JStr ''#f00'', ''opacity'' \<mapsto> JNum 1]
        \<lparr>g_name = ''waves'', g_clip = None, g_children = [], g_animations = []\<rparr>
        (56, 56, 56) 224 [])))"
  using addWaterWave_parameters[where i = 0 and waveCount = 1 and x = 56 and y = 56
      and level = "1 / 2" and radius = 224 and con = "[]" and clip = "(56, 56, 56)"
      and waveAttrs = "[''fill'' \<mapsto> JStr ''#f00'', ''opacity'' \<mapsto> JNum 1]"
      and grp = "\<lparr>g_name = ''waves'', g_clip = None, g_children = [], g_animations = []\<rparr>"
      and e = "\<lparr>parsePoint = (\<lambda>p. \<lparr>px = 0, py = 0\<rparr>),
         getBBox = (\<lambda>c. \<lparr>minX = 0, maxX = 112, minY = 0, maxY = 112\<rparr>),
         animate = (\<lambda>s a. True), strToNumber = (\<lambda>s. None)\<rparr>"]
  by (simp add: Let_def get_prop_def lerp_def transform_def string_of_nat.simps digit_char_def)

text \<open>
  Claim C5. A draw that completes appends to the container one clipped group holding
  exactly three wave paths and, after it, one ring circle; for a positive bounding width the
  amplitudes \<open>width / lerp 56 64 factor\<close>, and for a positive base opacity the opacities
  \<open>lerp 0.6 0.3 factor * base\<close>, strictly decrease as the wave index grows.
\<close>

theorem draw_three_waves:
  assumes "cfg_customInfo cfg = Some ci" and "cfg_points cfg = p0 # p1 # rest"
  shows "\<exists>cx cy r lvl width fill base anims con ring.
     draw e cfg container =
       Inr (container @
         [EGroup \<lparr>g_name = ''waves'', g_clip = Some (cx, cy, r),
            g_children =
              map (\<lambda>i. PathShape (''wave-path-'' @ string_of_nat (nat i))
                     \<lparr>a_path = getWaterWavePath (r * 4) lvl (width / 4) 0
                                 (width / lerp 56 64 (real_of_int i / 2)) cx cy,
                      a_fill = fill,
                      a_opacity = map_option (\<lambda>b. lerp 0.6 0.3 (real_of_int i / 2) * b) base\<rparr>)
                  [0, 1, 2],
            g_animations = anims\<rparr>,
          EShape (CircleShape ''wrap'' ring)], con)
     \<and> width = maxX (getBBox e (cx, cy, r)) - minX (getBBox e (cx, cy, r))
     \<and> base = toNumber e (get_prop (getFillAttrs cfg) ''opacity'')
     \<and> ring ''r'' = Some (JNum r) \<and> ring ''fill'' = Some (JStr ''transparent'')
     \<and> (\<forall>i j. 0 \<le> i \<and> i < j \<and> j \<le> 2 \<and> 0 < width \<longrightarrow>
            width / lerp 56 64 (real_of_int j / 2) < width / lerp 56 64 (real_of_int i / 2))
     \<and> (\<forall>i j b. 0 \<le> i \<and> i < j \<and> j \<le> 2 \<and> 0 < b \<longrightarrow>
            lerp 0.6 0.3 (real_of_int j / 2) * b < lerp 0.6 0.3 (real_of_int i / 2) * b)"
proof -
  have mono: "\<And>width. \<forall>i j. 0 \<le> i \<and> i < j \<and> j \<le> 2 \<and> 0 < width \<longrightarrow>
            width / lerp 56 64 (real_of_int j / 2) < width / lerp 56 64 (real_of_int i / 2)"
    using lerp_amplitude_mono by blast
  have mono2: "\<forall>i j b. 0 \<le> i \<and> i < j \<and> j \<le> 2 \<and> 0 < b \<longrightarrow>
            lerp 0.6 0.3 (real_of_int j / 2) * b < lerp 0.6 0.3 (real_of_int i / 2) * b"
    using lerp_opacity_mono by blast
  show ?thesis
    unfolding draw_result[OF assms] addWaterWave_result Let_def upto_three
    apply (simp only: fst_conv snd_conv)
    apply (intro exI conjI)
           prefer 2 apply (rule refl)
          prefer 2 apply (rule refl)
         prefer 4 apply (rule mono)
        prefer 4 apply (rule mono2)
       apply (simp add: wave_at_def wave_factor_def wave_names string_of_nat.simps digit_char_def)
      apply (simp add: mix_into_def)
     apply (simp add: mix_into_def)
    done
qed

theorem draw_three_waves_witness:
  "cfg_customInfo \<lparr>cfg_style = Map.empty, cfg_color = JStr ''#6a99f9'', cfg_opacity = JUndefined,
       cfg_customInfo = Some Map.empty,
       cfg_points = [\<lparr>px = 0, py = 0.5\<rparr>, \<lparr>px = 1, py = 0.7\<rparr>]\<rparr> = Some Map.empty
   \<and> cfg_points \<lparr>cfg_style = Map.empty, cfg_color = JStr ''#6a99f9'', cfg_opacity = JUndefined,
       cfg_customInfo = Some Map.empty,
       cfg_points = [\<lparr>px = 0, py = 0.5\<rparr>, \<lparr>px = 1, py = 0.7\<rparr>]\<rparr>
       = \<lparr>px = 0, py = 0.5\<rparr> # \<lparr>px = 1, py = 0.7\<rparr> # []
   \<and> (\<exists>grp ring con.
         draw \<lparr>parsePoint = (\<lambda>(x, y). \<lparr>px = (case x of Fin v \<Rightarrow> v * 400 | Infinity \<Rightarrow> 0), py = y * 400\<rparr>),
               getBBox = (\<lambda>(x, y, r). \<lparr>minX = x - r, maxX = x + r, minY = y - r, maxY = y + r\<rparr>),
               animate = (\<lambda>s a. True), strToNumber = (\<lambda>s. None)\<rparr>
           \<lparr>cfg_style = Map.empty, cfg_color = JStr ''#6a99f9'', cfg_opacity = JUndefined,
             cfg_customInfo = Some Map.empty,
             cfg_points = [\<lparr>px = 0, py = 0.5\<rparr>, \<lparr>px = 1, py = 0.7\<rparr>]\<rparr> []
           = Inr ([EGroup grp, EShape (CircleShape ''wrap'' ring)], con)
         \<and> length (g_children grp) = 3)"
proof -
  let ?cfg = "\<lparr>cfg_style = Map.empty, cfg_color = JStr ''#6a99f9'', cfg_opacity = JUndefined,
       cfg_customInfo = Some Map.empty,
       cfg_points = [\<lparr>px = 0, py = 0.5\<rparr>, \<lparr>px = 1, py = 0.7\<rparr>]\<rparr>"
  let ?e = "\<lparr>parsePoint = (\<lambda>(x, y). \<lparr>px = (case x of Fin v \<Rightarrow> v * 400 | Infinity \<Rightarrow> 0), py = y * 400\<rparr>),
               getBBox = (\<lambda>(x, y, r). \<lparr>minX = x - r, maxX = x + r, minY = y - r, maxY = y + r\<rparr>),
               animate = (\<lambda>s a. True), strToNumber = (\<lambda>s. None)\<rparr>"
  have h1: "cfg_customInfo ?cfg = Some Map.empty" by simp
  have h2: "cfg_points ?cfg = \<lparr>px = 0, py = 0.5\<rparr> # \<lparr>px = 1, py = 0.7\<rparr> # []" by simp
  from draw_three_waves[OF h1 h2, of ?e "[]"]
  obtain grp ring con where "draw ?e ?cfg [] = Inr ([] @ [EGroup grp, EShape (CircleShape ''wrap'' ring)], con)"
    and "length (g_children grp) = 3"
    by force
  then have "\<exists>grp ring con. draw ?e ?cfg [] = Inr ([EGroup grp, EShape (CircleShape ''wrap'' ring)], con)
         \<and> length (g_children grp) = 3" by auto
  with h1 h2 show ?thesis by blast
qed

text \<open>
  Claim C9. Whether the animation requests succeed or fail does not change the shapes:
  \<^verbatim>\<open>addWaterWave\<close> adds all \<open>waveCount\<close> waves under any behaviour of \<open>animate\<close>, a
  failing request only leaves a console message and no animation, and \<^verbatim>\<open>draw\<close> returns
  the same shapes and completes whenever the configuration has \<^verbatim>\<open>customInfo\<close> and two
  points.
\<close>

theorem animate_failure_contained:
  "g_children (fst (addWaterWave (e\<lparr>animate := f\<rparr>) x y level waveCount waveAttrs grp clip radius con))
     = g_children (fst (addWaterWave e x y level waveCount waveAttrs grp clip radius con))
   \<and> length (g_children (fst (addWaterWave (e\<lparr>animate := f\<rparr>) x y level waveCount waveAttrs grp clip radius con)))
     = length (g_children grp) + nat waveCount
   \<and> snd (addWaterWave (e\<lparr>animate := (\<lambda>s a. False)\<rparr>) x y level waveCount waveAttrs grp clip radius con)
     = con @ replicate (nat waveCount) ''off-screen group animate error!''
   \<and> g_animations (fst (addWaterWave (e\<lparr>animate := (\<lambda>s a. False)\<rparr>) x y level waveCount waveAttrs grp clip radius con))
     = g_animations grp
   \<and> map_sum id (\<lambda>r. concat (map element_shapes (fst r))) (draw (e\<lparr>animate := f\<rparr>) cfg container)
     = map_sum id (\<lambda>r. concat (map element_shapes (fst r))) (draw e cfg container)
   \<and> (cfg_customInfo cfg \<noteq> None \<and> 2 \<le> length (cfg_points cfg)
        \<longrightarrow> (\<exists>r. draw (e\<lparr>animate := f\<rparr>) cfg container = Inr r))"
proof -
  have a: "g_children (fst (addWaterWave (e\<lparr>animate := f\<rparr>) x y level waveCount waveAttrs grp clip radius con))
     = g_children (fst (addWaterWave e x y level waveCount waveAttrs grp clip radius con))"
    for x y level waveCount waveAttrs grp clip radius con
    by (simp add: addWaterWave_result)
  have b: "length (g_children (fst (addWaterWave (e\<lparr>animate := f\<rparr>) x y level waveCount waveAttrs grp clip radius con)))
     = length (g_children grp) + nat waveCount"
    by (simp add: addWaterWave_result)
  have c: "snd (addWaterWave (e\<lparr>animate := (\<lambda>s a. False)\<rparr>) x y level waveCount waveAttrs grp clip radius con)
     = con @ replicate (nat waveCount) ''off-screen group animate error!''"
    by (simp add: addWaterWave_result map_replicate_const)
  have d: "g_animations (fst (addWaterWave (e\<lparr>animate := (\<lambda>s a. False)\<rparr>) x y level waveCount waveAttrs grp clip radius con))
     = g_animations grp"
    by (simp add: addWaterWave_result)
  have ok: "\<exists>r. draw e' cfg container = Inr r"
    if "cfg_customInfo cfg \<noteq> None" "2 \<le> length (cfg_points cfg)" for e' :: "'a env_scheme"
  proof -
    from that(1) obtain ci where ci: "cfg_customInfo cfg = Some ci" by blast
    from that(2) obtain p0 p1 rest where pts: "cfg_points cfg = p0 # p1 # rest"
      by (cases "cfg_points cfg"; cases "tl (cfg_points cfg)") auto
    show ?thesis by (simp add: draw_result[OF ci pts] Let_def)
  qed
  have e: "map_sum id (\<lambda>r. concat (map element_shapes (fst r))) (draw (e\<lparr>animate := f\<rparr>) cfg container)
     = map_sum id (\<lambda>r. concat (map element_shapes (fst r))) (draw e cfg container)"
  proof (cases "cfg_customInfo cfg = None \<or> length (cfg_points cfg) < 2")
    case True
    then show ?thesis by (simp add: draw_error)
  next
    case False
    then obtain ci where ci: "cfg_customInfo cfg = Some ci" by auto
    from False obtain p0 p1 rest where pts: "cfg_points cfg = p0 # p1 # rest"
      by (cases "cfg_points cfg"; cases "tl (cfg_points cfg)") auto
    show ?thesis by (simp add: draw_result[OF ci pts] Let_def a)
  qed
  from a b c d e ok show ?thesis by blast
qed

theorem animate_failure_contained_witness:
  "cfg_customInfo \<lparr>cfg_style = Map.empty, cfg_color = JStr ''#6a99f9'', cfg_opacity = JUndefined,
       cfg_customInfo = Some Map.empty,
       cfg_points = [\<lparr>px = 0, py = 0.5\<rparr>, \<lparr>px = 1, py = 0.7\<rparr>]\<rparr> \<noteq> None
   \<and> 2 \<le> length (cfg_points \<lparr>cfg_style = Map.empty, cfg_color = JStr ''#6a99f9'',
       cfg_opacity = JUndefined, cfg_customInfo = Some Map.empty,
       cfg_points = [\<lparr>px = 0, py = 0.5\<rparr>, \<lparr>px = 1, py = 0.7\<rparr>]\<rparr>)
   \<and> (\<exists>r. draw (\<lparr>parsePoint = (\<lambda>(x, y). \<lparr>px = (case x of Fin v \<Rightarrow> v * 400 | Infinity \<Rightarrow> 0), py = y * 400\<rparr>),
               getBBox = (\<lambda>(x, y, r). \<lparr>minX = x - r, maxX = x + r, minY = y - r, maxY = y + r\<rparr>),
               animate = (\<lambda>s a. True), strToNumber = (\<lambda>s. None)\<rparr>\<lparr>animate := (\<lambda>s a. False)\<rparr>)
           \<lparr>cfg_style = Map.empty, cfg_color = JStr ''#6a99f9'', cfg_opacity = JUndefined,
             cfg_customInfo = Some Map.empty,
             cfg_points = [\<lparr>px = 0, py = 0.5\<rparr>, \<lparr>px = 1, py = 0.7\<rparr>]\<rparr> [] = Inr r)
   \<and> snd (addWaterWave (\<lparr>parsePoint = (\<lambda>(x, y). \<lparr>px = (case x of Fin v \<Rightarrow> v * 400 | Infinity \<Rightarrow> 0), py = y * 400\<rparr>),
               getBBox = (\<lambda>(x, y, r). \<lparr>minX = x - r, maxX = x + r, minY = y - r, maxY = y + r\<rparr>),
               animate = (\<lambda>s a. True), strToNumber = (\<lambda>s. None)\<rparr>\<lparr>animate := (\<lambda>s a. False)\<rparr>)
            200 200 (3 / 10) 3 [''opacity'' \<mapsto> JNum 1]
            \<lparr>g_name = ''waves'', g_clip = None, g_children = [], g_animations = []\<rparr>
            (200, 200, 180) 720 [])
       = [''off-screen group animate error!'', ''off-screen group animate error!'',
          ''off-screen group animate error!'']"
proof -
  let ?cfg = "\<lparr>cfg_style = Map.empty, cfg_color = JStr ''#6a99f9'', cfg_opacity = JUndefined,
       cfg_customInfo = Some Map.empty,
       cfg_points = [\<lparr>px = 0, py = 0.5\<rparr>, \<lparr>px = 1, py = 0.7\<rparr>]\<rparr>"
  let ?e = "\<lparr>parsePoint = (\<lambda>(x, y). \<lparr>px = (case x of Fin v \<Rightarrow> v * 400 | Infinity \<Rightarrow> 0), py = y * 400\<rparr>),
               getBBox = (\<lambda>(x, y, r). \<lparr>minX = x - r, maxX = x + r, minY = y - r, maxY = y + r\<rparr>),
               animate = (\<lambda>s a. True), strToNumber = (\<lambda>s. None)\<rparr>"
  have h1: "cfg_customInfo ?cfg \<noteq> None" by simp
  have h2: "2 \<le> length (cfg_points ?cfg)" by simp
  have n3: "replicate (nat 3) ''off-screen group animate error!''
      = [''off-screen group animate error!'', ''off-screen group animate error!'',
          ''off-screen group animate error!'']"
    by (simp add: numeral_3_eq_3)
  note t = animate_failure_contained[where e = ?e and f = "\<lambda>s a. False" and cfg = ?cfg
      and container = "[]" and x = 200 and y = 200 and level = "3 / 10" and waveCount = 3
      and waveAttrs = "[''opacity'' \<mapsto> JNum 1]"
      and grp = "\<lparr>g_name = ''waves'', g_clip = None, g_children = [], g_animations = []\<rparr>"
      and clip = "(200, 200, 180)" and radius = 720 and con = "[]"]
  from t h1 h2 have r: "\<exists>r. draw (?e\<lparr>animate := (\<lambda>s a. False)\<rparr>) ?cfg [] = Inr r" by blast
  from t have s: "snd (addWaterWave (?e\<lparr>animate := (\<lambda>s a. False)\<rparr>) 200 200 (3 / 10) 3
            [''opacity'' \<mapsto> JNum 1]
            \<lparr>g_name = ''waves'', g_clip = None, g_children = [], g_animations = []\<rparr>
            (200, 200, 180) 720 [])
       = [] @ replicate (nat 3) ''off-screen group animate error!''" by blast
  from h1 h2 r s show ?thesis unfolding n3 by simp
qed

end
